theory Spec2Isabelle
  imports Main
begin

section \<open>Values shared by the pipeline\<close>

text \<open>
  The script \<^verbatim>\<open>gfg_langchain_falcon.py\<close> is a linear pipeline: fetch a page, extract
  fields with selectors and regular expressions, let a language model rewrite them as
  JSON, validate the JSON against \<^verbatim>\<open>GFGProfile\<close>, write the file.

  Python strings are modelled as \<^typ>\<open>string\<close>, one \<^typ>\<open>char\<close> per code point, so the
  model covers texts over the code points 0 to 255. Python dictionaries keep insertion
  order and are modelled as association lists with distinct keys.
\<close>

text \<open>Every exception the script can raise is a value of this type.\<close>

datatype error =
    ValueError string
  | RequestException
  | ChainError
  | JSONDecodeError
  | TypeError
  | ValidationError

text \<open>
  The values of Python's \<^verbatim>\<open>json\<close> module. A number with a fraction or an exponent is a
  float; it is carried as its literal, since binary floating point is not modelled.
\<close>

datatype json =
    JNull
  | JBool bool
  | JInt int
  | JFloat string
  | JStr string
  | JArr "json list"
  | JObj "(string \<times> json) list"

section \<open>Text helpers\<close>

text \<open>\<^verbatim>\<open>str.isspace\<close> on one code point below 256; also the class \<^verbatim>\<open>\s\<close> of \<^verbatim>\<open>re\<close>.\<close>

definition py_isspace :: "char \<Rightarrow> bool" where
  "py_isspace c =
     (let n = (of_char c :: nat)
      in (9 \<le> n \<and> n \<le> 13) \<or> (28 \<le> n \<and> n \<le> 32) \<or> n = 133 \<or> n = 160)"

text \<open>\<^verbatim>\<open>str.strip()\<close>.\<close>

definition strip :: "string \<Rightarrow> string" where
  "strip s = rev (dropWhile py_isspace (rev (dropWhile py_isspace s)))"

text \<open>\<^verbatim>\<open>sep.join(parts)\<close>.\<close>

fun join :: "string \<Rightarrow> string list \<Rightarrow> string" where
  "join sep [] = []"
| "join sep [x] = x"
| "join sep (x # y # ys) = x @ sep @ join sep (y # ys)"

definition is_digit :: "char \<Rightarrow> bool" where
  "is_digit c = (48 \<le> (of_char c :: nat) \<and> (of_char c :: nat) \<le> 57)"

definition digit_val :: "char \<Rightarrow> nat" where
  "digit_val c = of_char c - 48"

text \<open>The value of a string of decimal digits, most significant first.\<close>

definition nat_of_digits :: "string \<Rightarrow> nat" where
  "nat_of_digits s = foldl (\<lambda>a c. 10 * a + digit_val c) 0 s"

text \<open>
  \<^verbatim>\<open>int(s)\<close> on the strings that reach it in \<^verbatim>\<open>grab_num\<close>: the characters left of a
  run of \<^verbatim>\<open>[0-9,]\<close> once the commas are removed. The empty string raises
  \<^verbatim>\<open>ValueError\<close>. (The interpreter's optional cap on the number of digits is a runtime
  setting and is not part of the model.)
\<close>

definition py_int :: "string \<Rightarrow> error + int" where
  "py_int s =
     (if s \<noteq> [] \<and> list_all is_digit s then Inr (int (nat_of_digits s))
      else Inl (ValueError (''invalid literal for int() with base 10: '' @ s)))"

section \<open>The parsed page\<close>

text \<open>
  \<^verbatim>\<open>BeautifulSoup(html, "html.parser")\<close> is a library call; its result, the tree of
  tags and strings, is what \<^verbatim>\<open>parse_profile_html\<close> works on. A tag has its name, the
  values of its \<^verbatim>\<open>class\<close> attribute and its children; the document itself is the root
  tag. Strings are those that \<^verbatim>\<open>get_text\<close> yields.
\<close>

datatype node =
    NavigableString string
  | Tag string "string list" "node list"

fun strings :: "node \<Rightarrow> string list" where
  "strings (NavigableString s) = [s]"
| "strings (Tag n cls kids) = concat (map strings kids)"

text \<open>\<^verbatim>\<open>tag.get_text(strip=True)\<close>: every string stripped, the empty ones skipped.\<close>

definition get_text_strip :: "node \<Rightarrow> string" where
  "get_text_strip t = concat (filter (\<lambda>s. s \<noteq> []) (map strip (strings t)))"

text \<open>\<^verbatim>\<open>soup.get_text(separator="\n")\<close>.\<close>

definition get_text_sep :: "string \<Rightarrow> node \<Rightarrow> string" where
  "get_text_sep sep t = join sep (strings t)"

text \<open>
  The selectors the script uses are groups of class selectors, type selectors and one
  descendant combinator (\<^verbatim>\<open>.user-badges li\<close>).
\<close>

datatype simple_sel = Class_sel string | Type_sel string

datatype selector = Simple simple_sel | Descendant simple_sel simple_sel

fun matches_simple :: "simple_sel \<Rightarrow> node \<Rightarrow> bool" where
  "matches_simple s (NavigableString t) = False"
| "matches_simple (Class_sel c) (Tag n cls kids) = (c \<in> set cls)"
| "matches_simple (Type_sel t) (Tag n cls kids) = (n = t)"

fun matches :: "selector \<Rightarrow> node list \<Rightarrow> node \<Rightarrow> bool" where
  "matches (Simple s) ancs x = matches_simple s x"
| "matches (Descendant a d) ancs x = (matches_simple d x \<and> list_ex (matches_simple a) ancs)"

text \<open>
  \<^verbatim>\<open>soup.select(group)\<close>: the descendants of a tag, in document order, that match one
  selector of the group. The second argument holds the ancestors of the tag.
\<close>

fun select :: "selector list \<Rightarrow> node list \<Rightarrow> node \<Rightarrow> node list" where
  "select sels ancs (NavigableString s) = []"
| "select sels ancs (Tag n cls kids) =
     concat (map (\<lambda>k. (if list_ex (\<lambda>s. matches s (Tag n cls kids # ancs) k) sels then [k] else [])
                       @ select sels (Tag n cls kids # ancs) k) kids)"

definition select_one :: "selector list \<Rightarrow> node \<Rightarrow> node option" where
  "select_one sels soup = (case select sels [] soup of [] \<Rightarrow> None | x # _ \<Rightarrow> Some x)"

section \<open>Numeric counters: \<^verbatim>\<open>grab_num\<close>\<close>

text \<open>
  A pattern of the script is \<^verbatim>\<open>(?:L1|L2)[:\s]*([0-9,]+)\<close>, searched with
  \<^verbatim>\<open>re.I\<close>: a list of literal labels, then any run of colons and white space, then a
  non-empty run of digits and commas, which is group 1. The two character classes are
  disjoint, so the greedy runs are the maximal ones and no backtracking changes them.
\<close>

definition lower :: "char \<Rightarrow> char" where
  "lower c =
     (if 65 \<le> (of_char c :: nat) \<and> (of_char c :: nat) \<le> 90 then char_of (of_char c + (32::nat))
      else c)"

definition ci_prefix :: "string \<Rightarrow> string \<Rightarrow> bool" where
  "ci_prefix lab s = (map lower (take (length lab) s) = map lower lab)"

definition is_sep :: "char \<Rightarrow> bool" where
  "is_sep c = (c = CHR '':'' \<or> py_isspace c)"

definition is_numch :: "char \<Rightarrow> bool" where
  "is_numch c = (is_digit c \<or> c = CHR '','')"

text \<open>The pattern matched at the start of \<open>s\<close>: group 1 of the first alternative that fits.\<close>

fun match_here :: "string list \<Rightarrow> string \<Rightarrow> string option" where
  "match_here [] s = None"
| "match_here (lab # labs) s =
     (if ci_prefix lab s \<and> takeWhile is_numch (dropWhile is_sep (drop (length lab) s)) \<noteq> []
      then Some (takeWhile is_numch (dropWhile is_sep (drop (length lab) s)))
      else match_here labs s)"

text \<open>\<^verbatim>\<open>re.search\<close>: the match at the leftmost position that has one.\<close>

fun re_search :: "string list \<Rightarrow> string \<Rightarrow> string option" where
  "re_search labs [] = match_here labs []"
| "re_search labs (c # cs) =
     (case match_here labs (c # cs) of
        Some g \<Rightarrow> Some g
      | None \<Rightarrow> re_search labs cs)"

definition grab_num :: "string list \<Rightarrow> string \<Rightarrow> error + int option" where
  "grab_num pat text =
     (case re_search pat text of
        Some g \<Rightarrow>
          (case py_int (filter (\<lambda>c. c \<noteq> CHR '','') g) of
             Inl e \<Rightarrow> Inl e
           | Inr n \<Rightarrow> Inr (Some n))
      | None \<Rightarrow> Inr None)"

section \<open>The extractor: \<^verbatim>\<open>parse_profile_html\<close>\<close>

definition name_selectors :: "selector list" where
  "name_selectors =
     [Simple (Class_sel ''profile_name''), Simple (Class_sel ''name''), Simple (Type_sel ''h1'')]"

definition about_selectors :: "selector list" where
  "about_selectors =
     [Simple (Class_sel ''about''), Simple (Class_sel ''bio''), Simple (Type_sel ''p'')]"

definition badge_selectors :: "selector list" where
  "badge_selectors =
     [Simple (Class_sel ''badge''), Descendant (Class_sel ''user-badges'') (Type_sel ''li'')]"

definition skill_selectors :: "selector list" where
  "skill_selectors =
     [Simple (Class_sel ''skill''), Descendant (Class_sel ''skills'') (Type_sel ''li''),
      Simple (Class_sel ''tag'')]"

definition followers_pat :: "string list" where
  "followers_pat = [''Followers'']"

definition following_pat :: "string list" where
  "following_pat = [''Following'']"

definition problems_pat :: "string list" where
  "problems_pat = [''Problems solved'', ''Solved problems'']"

definition articles_pat :: "string list" where
  "articles_pat = [''Articles'', ''Posts'']"

definition opt_int :: "int option \<Rightarrow> json" where
  "opt_int x = (case x of None \<Rightarrow> JNull | Some n \<Rightarrow> JInt n)"

text \<open>
  The dictionary \<^verbatim>\<open>data\<close>, in the order the script fills it. The four counters are
  always stored (as \<^verbatim>\<open>None\<close> when the pattern has no match); the other keys only when
  their selector found something. The badge list drops empty texts; the skill list does
  not.
\<close>

definition parse_profile_html :: "node \<Rightarrow> error + (string \<times> json) list" where
  "parse_profile_html soup =
     (let name_part =
            (case select_one name_selectors soup of
               Some t \<Rightarrow> [(''display_name'', JStr (get_text_strip t))]
             | None \<Rightarrow> []);
          about_part =
            (case select_one about_selectors soup of
               Some t \<Rightarrow> [(''about'', JStr (get_text_strip t))]
             | None \<Rightarrow> []);
          text = get_text_sep [CHR 0x0A] soup;
          badges = filter (\<lambda>b. b \<noteq> []) (map get_text_strip (select badge_selectors [] soup));
          skills = map get_text_strip (select skill_selectors [] soup)
      in case grab_num followers_pat text of Inl e \<Rightarrow> Inl e | Inr followers \<Rightarrow>
         (case grab_num following_pat text of Inl e \<Rightarrow> Inl e | Inr following \<Rightarrow>
         (case grab_num problems_pat text of Inl e \<Rightarrow> Inl e | Inr problems_solved \<Rightarrow>
         (case grab_num articles_pat text of Inl e \<Rightarrow> Inl e | Inr articles_count \<Rightarrow>
            Inr (name_part @ about_part
                 @ [(''followers'', opt_int followers),
                    (''following'', opt_int following),
                    (''problems_solved'', opt_int problems_solved),
                    (''articles_count'', opt_int articles_count)]
                 @ (if badges \<noteq> [] then [(''badges'', JArr (map JStr badges))] else [])
                 @ (if skills \<noteq> [] then [(''top_skills'', JArr (map JStr skills))] else [])
                 @ [(''raw_text_snippet'', JStr (take 2000 text))])))))"

section \<open>JSON text: \<^verbatim>\<open>json.dumps\<close>, \<^verbatim>\<open>json.dump\<close>\<close>

fun show_nat :: "nat \<Rightarrow> string" where
  "show_nat n =
     (if n < 10 then [char_of (48 + n)] else show_nat (n div 10) @ [char_of (48 + n mod 10)])"

definition show_int :: "int \<Rightarrow> string" where
  "show_int i = (if i < 0 then CHR ''-'' # show_nat (nat (- i)) else show_nat (nat i))"

definition hexdigit :: "nat \<Rightarrow> char" where
  "hexdigit n = (if n < 10 then char_of (48 + n) else char_of (87 + n))"

definition escape_char :: "char \<Rightarrow> string" where
  "escape_char c =
     (if c = CHR 0x22 then [CHR 0x5C, CHR 0x22]
      else if c = CHR 0x5C then [CHR 0x5C, CHR 0x5C]
      else if c = CHR 0x0A then [CHR 0x5C, CHR ''n'']
      else if c = CHR 0x0D then [CHR 0x5C, CHR ''r'']
      else if c = CHR 0x09 then [CHR 0x5C, CHR ''t'']
      else if c = CHR 0x08 then [CHR 0x5C, CHR ''b'']
      else if c = CHR 0x0C then [CHR 0x5C, CHR ''f'']
      else if (of_char c :: nat) < 32
        then [CHR 0x5C, CHR ''u'', CHR ''0'', CHR ''0'',
              hexdigit (of_char c div 16), hexdigit (of_char c mod 16)]
      else [c])"

definition encode_str :: "string \<Rightarrow> string" where
  "encode_str s = CHR 0x22 # concat (map escape_char s) @ [CHR 0x22]"

fun dumps :: "json \<Rightarrow> string" where
  "dumps JNull = ''null''"
| "dumps (JBool b) = (if b then ''true'' else ''false'')"
| "dumps (JInt i) = show_int i"
| "dumps (JFloat lit) = lit"
| "dumps (JStr s) = encode_str s"
| "dumps (JArr xs) = ''['' @ join '', '' (map dumps xs) @ '']''"
| "dumps (JObj kvs) =
     ''{'' @ join '', '' (map (\<lambda>(k, v). encode_str k @ '': '' @ dumps v) kvs) @ ''}''"

definition newline_indent :: "nat \<Rightarrow> string" where
  "newline_indent lvl = CHR 0x0A # replicate (2 * lvl) (CHR '' '')"

fun dump_indent :: "nat \<Rightarrow> json \<Rightarrow> string" where
  "dump_indent lvl JNull = ''null''"
| "dump_indent lvl (JBool b) = (if b then ''true'' else ''false'')"
| "dump_indent lvl (JInt i) = show_int i"
| "dump_indent lvl (JFloat lit) = lit"
| "dump_indent lvl (JStr s) = encode_str s"
| "dump_indent lvl (JArr xs) =
     (if xs = [] then ''[]''
      else ''['' @ newline_indent (Suc lvl)
           @ join (CHR '','' # newline_indent (Suc lvl)) (map (dump_indent (Suc lvl)) xs)
           @ newline_indent lvl @ '']'')"
| "dump_indent lvl (JObj kvs) =
     (if kvs = [] then ''{}''
      else ''{'' @ newline_indent (Suc lvl)
           @ join (CHR '','' # newline_indent (Suc lvl))
               (map (\<lambda>(k, v). encode_str k @ '': '' @ dump_indent (Suc lvl) v) kvs)
           @ newline_indent lvl @ ''}'')"


section \<open>JSON text: \<^verbatim>\<open>json.loads\<close>\<close>

text \<open>
  The decoder is modelled in two passes: the text is cut into tokens, then the tokens
  are parsed. JSON's tokens are self-delimiting or followed by a delimiter in every
  accepted text, so the two passes accept the texts the library's single pass accepts,
  with the same values. White space is blank, tab, line feed and carriage return. A
  string may not hold a raw control character (\<^verbatim>\<open>strict=True\<close>). An escape
  \<^verbatim>\<open>\uXXXX\<close> above \<^verbatim>\<open>00ff\<close> names a code point outside the modelled alphabet; the
  model has no value for it and gives no result there.
\<close>

datatype token =
    LBrace | RBrace | LBrack | RBrack | Comma | Colon
  | TStr string | TInt int | TFloat string | TTrue | TFalse | TNull

definition hexval :: "char \<Rightarrow> nat option" where
  "hexval c =
     (let n = (of_char c :: nat)
      in if 48 \<le> n \<and> n \<le> 57 then Some (n - 48)
         else if 97 \<le> n \<and> n \<le> 102 then Some (n - 87)
         else if 65 \<le> n \<and> n \<le> 70 then Some (n - 55)
         else None)"

definition unescape :: "char \<Rightarrow> char option" where
  "unescape e =
     (if e = CHR 0x22 then Some (CHR 0x22)
      else if e = CHR 0x5C then Some (CHR 0x5C)
      else if e = CHR ''/'' then Some (CHR ''/'')
      else if e = CHR ''b'' then Some (CHR 0x08)
      else if e = CHR ''f'' then Some (CHR 0x0C)
      else if e = CHR ''n'' then Some (CHR 0x0A)
      else if e = CHR ''r'' then Some (CHR 0x0D)
      else if e = CHR ''t'' then Some (CHR 0x09)
      else None)"

definition hex4 :: "char \<Rightarrow> char \<Rightarrow> char \<Rightarrow> char \<Rightarrow> nat option" where
  "hex4 a b c d =
     (case (hexval a, hexval b, hexval c, hexval d) of
        (Some w, Some x, Some y, Some z) \<Rightarrow> Some (4096 * w + 256 * x + 16 * y + z)
      | _ \<Rightarrow> None)"

definition cons_str :: "char \<Rightarrow> (string \<times> string) option \<Rightarrow> (string \<times> string) option" where
  "cons_str c r = (case r of None \<Rightarrow> None | Some (s, rest) \<Rightarrow> Some (c # s, rest))"

fun scan_string :: "string \<Rightarrow> (string \<times> string) option" where
  "scan_string [] = None"
| "scan_string (c # cs) =
     (if c = CHR 0x22 then Some ([], cs)
      else if c = CHR 0x5C then
        (case cs of
           [] \<Rightarrow> None
         | e # r \<Rightarrow>
             if e = CHR ''u'' then
               (case r of
                  h1 # h2 # h3 # h4 # r' \<Rightarrow>
                    (case hex4 h1 h2 h3 h4 of
                       Some n \<Rightarrow> if n < 256 then cons_str (char_of n) (scan_string r') else None
                     | None \<Rightarrow> None)
                | _ \<Rightarrow> None)
             else
               (case unescape e of
                  Some d \<Rightarrow> cons_str d (scan_string r)
                | None \<Rightarrow> None))
      else if (of_char c :: nat) < 32 then None
      else cons_str c (scan_string cs))"

definition scan_frac :: "string \<Rightarrow> string" where
  "scan_frac s =
     (case s of
        c # r \<Rightarrow> if c = CHR ''.'' \<and> takeWhile is_digit r \<noteq> [] then c # takeWhile is_digit r else []
      | [] \<Rightarrow> [])"

definition scan_sign :: "string \<Rightarrow> string" where
  "scan_sign s = (case s of c # r \<Rightarrow> if c = CHR ''+'' \<or> c = CHR ''-'' then [c] else [] | [] \<Rightarrow> [])"

definition scan_exp :: "string \<Rightarrow> string" where
  "scan_exp s =
     (case s of
        c # r \<Rightarrow>
          if (c = CHR ''e'' \<or> c = CHR ''E'') \<and> takeWhile is_digit (drop (length (scan_sign r)) r) \<noteq> []
          then c # scan_sign r @ takeWhile is_digit (drop (length (scan_sign r)) r)
          else []
      | [] \<Rightarrow> [])"

definition scan_intpart :: "string \<Rightarrow> string" where
  "scan_intpart s =
     (case takeWhile is_digit s of
        [] \<Rightarrow> []
      | d # ds \<Rightarrow> if d = CHR ''0'' then [d] else d # ds)"

definition scan_number :: "string \<Rightarrow> (token \<times> string) option" where
  "scan_number s =
     (let sign = (case s of c # r \<Rightarrow> if c = CHR ''-'' then [c] else [] | [] \<Rightarrow> []);
          s1 = drop (length sign) s;
          ip = scan_intpart s1;
          s2 = drop (length ip) s1;
          frac = scan_frac s2;
          s3 = drop (length frac) s2;
          ex = scan_exp s3;
          s4 = drop (length ex) s3
      in if ip = [] then None
         else if frac = [] \<and> ex = []
           then Some (TInt (if sign = [] then int (nat_of_digits ip) else - int (nat_of_digits ip)), s4)
         else Some (TFloat (sign @ ip @ frac @ ex), s4))"

definition starts_with :: "string \<Rightarrow> string \<Rightarrow> bool" where
  "starts_with p s = (take (length p) s = p)"

definition is_ws :: "char \<Rightarrow> bool" where
  "is_ws c = (c = CHR '' '' \<or> c = CHR 0x09 \<or> c = CHR 0x0A \<or> c = CHR 0x0D)"

text \<open>One token at the start of a text that does not start with white space.\<close>

definition next_token :: "string \<Rightarrow> (token \<times> string) option" where
  "next_token s =
     (case s of
        [] \<Rightarrow> None
      | c # cs \<Rightarrow>
          if c = CHR ''{'' then Some (LBrace, cs)
          else if c = CHR ''}'' then Some (RBrace, cs)
          else if c = CHR ''['' then Some (LBrack, cs)
          else if c = CHR '']'' then Some (RBrack, cs)
          else if c = CHR '','' then Some (Comma, cs)
          else if c = CHR '':'' then Some (Colon, cs)
          else if c = CHR 0x22 then
            (case scan_string cs of None \<Rightarrow> None | Some (str, r) \<Rightarrow> Some (TStr str, r))
          else if starts_with ''null'' s then Some (TNull, drop 4 s)
          else if starts_with ''true'' s then Some (TTrue, drop 4 s)
          else if starts_with ''false'' s then Some (TFalse, drop 5 s)
          else if starts_with ''NaN'' s then Some (TFloat ''NaN'', drop 3 s)
          else if starts_with ''Infinity'' s then Some (TFloat ''Infinity'', drop 8 s)
          else if starts_with ''-Infinity'' s then Some (TFloat ''-Infinity'', drop 9 s)
          else scan_number s)"

text \<open>Each token consumes at least one character, which is what makes \<open>tokenize\<close> total.\<close>

lemma scan_string_length: "scan_string s = Some (str, r) \<Longrightarrow> length r < length s"
proof (induction s arbitrary: str r rule: scan_string.induct)
  case 1
  then show ?case by simp
next
  case (2 c cs)
  then show ?case
    by (auto simp: cons_str_def split: if_splits list.splits option.splits) fastforce+
qed

lemma scan_number_length: "scan_number s = Some (t, r) \<Longrightarrow> length r < length s"
  by (auto simp: scan_number_def Let_def scan_intpart_def split: if_splits list.splits)

lemma next_token_length: "next_token s = Some (t, r) \<Longrightarrow> length r < length s"
  by (auto simp: next_token_def starts_with_def split: list.splits if_splits option.splits
      dest: scan_string_length scan_number_length)

function tokenize :: "string \<Rightarrow> token list option" where
  "tokenize s =
     (case dropWhile is_ws s of
        [] \<Rightarrow> Some []
      | c # cs \<Rightarrow>
          (case next_token (c # cs) of
             None \<Rightarrow> None
           | Some (t, r) \<Rightarrow> (case tokenize r of None \<Rightarrow> None | Some ts \<Rightarrow> Some (t # ts))))"
  by pat_completeness auto
termination
proof (relation "measure length")
  show "wf (measure length)" by simp
next
  fix s c cs x t r
  assume a: "dropWhile is_ws s = c # cs" and b: "next_token (c # cs) = Some x" and c: "(t, r) = x"
  have "length r < length (c # cs)" using b c next_token_length by metis
  moreover have "length (dropWhile is_ws s) \<le> length s" by (rule length_dropWhile_le)
  ultimately show "(r, s) \<in> measure length" using a by simp
qed



declare tokenize.simps [simp del]

text \<open>
  \<^verbatim>\<open>d[k] = v\<close> on an insertion-ordered dictionary: a key already present keeps its
  place and takes the new value.
\<close>

fun dict_set :: "(string \<times> json) list \<Rightarrow> string \<Rightarrow> json \<Rightarrow> (string \<times> json) list" where
  "dict_set [] k v = [(k, v)]"
| "dict_set ((k', v') # d) k v = (if k' = k then (k, v) # d else (k', v') # dict_set d k v)"

definition dict_of_pairs :: "(string \<times> json) list \<Rightarrow> (string \<times> json) list" where
  "dict_of_pairs kvs = foldl (\<lambda>d (k, v). dict_set d k v) [] kvs"

text \<open>
  The parser works on the token list. Its first argument bounds the depth of the
  recursion; \<open>json_loads\<close> starts it high enough for every token list (see
  \<open>parse_value_fuel\<close> below), so a result \<open>None\<close> is a syntax error.
  \<open>parse_elems\<close> reads \<^verbatim>\<open>value (, value)* ]\<close> and \<open>parse_members\<close> reads
  \<^verbatim>\<open>string : value (, string : value)* }\<close>.
\<close>

fun parse_value :: "nat \<Rightarrow> token list \<Rightarrow> (json \<times> token list) option"
  and parse_elems :: "nat \<Rightarrow> token list \<Rightarrow> (json list \<times> token list) option"
  and parse_members :: "nat \<Rightarrow> token list \<Rightarrow> ((string \<times> json) list \<times> token list) option"
where
  "parse_value 0 ts = None"
| "parse_value (Suc n) [] = None"
| "parse_value (Suc n) (TNull # ts) = Some (JNull, ts)"
| "parse_value (Suc n) (TTrue # ts) = Some (JBool True, ts)"
| "parse_value (Suc n) (TFalse # ts) = Some (JBool False, ts)"
| "parse_value (Suc n) (TInt i # ts) = Some (JInt i, ts)"
| "parse_value (Suc n) (TFloat lit # ts) = Some (JFloat lit, ts)"
| "parse_value (Suc n) (TStr s # ts) = Some (JStr s, ts)"
| "parse_value (Suc n) (LBrack # ts) =
     (case ts of
        RBrack # r \<Rightarrow> Some (JArr [], r)
      | _ \<Rightarrow> (case parse_elems n ts of None \<Rightarrow> None | Some (vs, r) \<Rightarrow> Some (JArr vs, r)))"
| "parse_value (Suc n) (LBrace # ts) =
     (case ts of
        RBrace # r \<Rightarrow> Some (JObj [], r)
      | _ \<Rightarrow>
         (case parse_members n ts of
            None \<Rightarrow> None
          | Some (kvs, r) \<Rightarrow> Some (JObj (dict_of_pairs kvs), r)))"
| "parse_value (Suc n) (RBrace # ts) = None"
| "parse_value (Suc n) (RBrack # ts) = None"
| "parse_value (Suc n) (Comma # ts) = None"
| "parse_value (Suc n) (Colon # ts) = None"
| "parse_elems 0 ts = None"
| "parse_elems (Suc n) ts =
     (case parse_value n ts of
        None \<Rightarrow> None
      | Some (v, r) \<Rightarrow>
         (case r of
            Comma # r' \<Rightarrow>
              (case parse_elems n r' of None \<Rightarrow> None | Some (vs, r'') \<Rightarrow> Some (v # vs, r''))
          | RBrack # r' \<Rightarrow> Some ([v], r')
          | _ \<Rightarrow> None))"
| "parse_members 0 ts = None"
| "parse_members (Suc n) ts =
     (case ts of
        TStr k # Colon # r \<Rightarrow>
          (case parse_value n r of
             None \<Rightarrow> None
           | Some (v, r1) \<Rightarrow>
              (case r1 of
                 Comma # r2 \<Rightarrow>
                   (case parse_members n r2 of
                      None \<Rightarrow> None
                    | Some (kvs, r3) \<Rightarrow> Some ((k, v) # kvs, r3))
               | RBrace # r2 \<Rightarrow> Some ([(k, v)], r2)
               | _ \<Rightarrow> None))
      | _ \<Rightarrow> None)"

text \<open>
  \<^verbatim>\<open>json.loads(text)\<close>: one value, with nothing but white space around it. Every
  exception of the decoder is the result \<open>None\<close>.
\<close>

definition json_loads :: "string \<Rightarrow> json option" where
  "json_loads s =
     (case tokenize s of
        None \<Rightarrow> None
      | Some ts \<Rightarrow>
         (case parse_value (2 * length ts + 1) ts of
            Some (v, []) \<Rightarrow> Some v
          | _ \<Rightarrow> None))"


section \<open>The schema: \<^verbatim>\<open>GFGProfile\<close>\<close>

record GFGProfile =
  username :: string
  display_name :: "string option"
  about :: "string option"
  reputation :: "string option"
  followers :: "int option"
  following :: "int option"
  problems_solved :: "int option"
  articles_count :: "int option"
  badges :: "string list"
  top_skills :: "string list"
  raw_extracted :: "(string \<times> json) list"

definition schema_keys :: "string list" where
  "schema_keys =
     [''username'', ''display_name'', ''about'', ''reputation'', ''followers'', ''following'',
      ''problems_solved'', ''articles_count'', ''badges'', ''top_skills'', ''raw_extracted'']"

text \<open>
  One validator per annotation. The argument is the keyword argument of that name
  (\<open>None\<close> when the response has no such key), the result is \<open>None\<close> when the field
  fails validation. A field with a default takes it when the key is absent. The class
  declares no constraint on any field and no model configuration, so the library's
  defaults apply: keyword arguments that name no field are ignored. The library's
  conversions between JSON types (a numeric string for an \<^verbatim>\<open>int\<close> field and the like)
  differ between its major versions and are left out of the model: a value whose JSON type
  is not the annotated one is rejected here.
\<close>

definition validate_str :: "json option \<Rightarrow> string option" where
  "validate_str x = (case x of Some (JStr s) \<Rightarrow> Some s | _ \<Rightarrow> None)"

definition validate_opt_str :: "json option \<Rightarrow> string option option" where
  "validate_opt_str x =
     (case x of
        None \<Rightarrow> Some None
      | Some JNull \<Rightarrow> Some None
      | Some (JStr s) \<Rightarrow> Some (Some s)
      | _ \<Rightarrow> None)"

definition validate_opt_int :: "json option \<Rightarrow> int option option" where
  "validate_opt_int x =
     (case x of
        None \<Rightarrow> Some None
      | Some JNull \<Rightarrow> Some None
      | Some (JInt i) \<Rightarrow> Some (Some i)
      | _ \<Rightarrow> None)"

definition validate_str_list :: "json option \<Rightarrow> string list option" where
  "validate_str_list x =
     (case x of
        None \<Rightarrow> Some []
      | Some (JArr xs) \<Rightarrow> those (map (\<lambda>v. case v of JStr s \<Rightarrow> Some s | _ \<Rightarrow> None) xs)
      | _ \<Rightarrow> None)"

definition validate_dict :: "json option \<Rightarrow> (string \<times> json) list option" where
  "validate_dict x = (case x of None \<Rightarrow> Some [] | Some (JObj d) \<Rightarrow> Some d | _ \<Rightarrow> None)"

text \<open>\<^verbatim>\<open>GFGProfile(**kwargs)\<close> on a dictionary of keyword arguments.\<close>

definition GFGProfile_init :: "(string \<times> json) list \<Rightarrow> GFGProfile option" where
  "GFGProfile_init kwargs =
     Option.bind (validate_str (map_of kwargs ''username'')) (\<lambda>f1.
     Option.bind (validate_opt_str (map_of kwargs ''display_name'')) (\<lambda>f2.
     Option.bind (validate_opt_str (map_of kwargs ''about'')) (\<lambda>f3.
     Option.bind (validate_opt_str (map_of kwargs ''reputation'')) (\<lambda>f4.
     Option.bind (validate_opt_int (map_of kwargs ''followers'')) (\<lambda>f5.
     Option.bind (validate_opt_int (map_of kwargs ''following'')) (\<lambda>f6.
     Option.bind (validate_opt_int (map_of kwargs ''problems_solved'')) (\<lambda>f7.
     Option.bind (validate_opt_int (map_of kwargs ''articles_count'')) (\<lambda>f8.
     Option.bind (validate_str_list (map_of kwargs ''badges'')) (\<lambda>f9.
     Option.bind (validate_str_list (map_of kwargs ''top_skills'')) (\<lambda>f10.
     Option.bind (validate_dict (map_of kwargs ''raw_extracted'')) (\<lambda>f11.
       Some \<lparr>username = f1, display_name = f2, about = f3, reputation = f4,
             followers = f5, following = f6, problems_solved = f7, articles_count = f8,
             badges = f9, top_skills = f10, raw_extracted = f11\<rparr>)))))))))))"

text \<open>
  \<^verbatim>\<open>GFGProfile(**parsed)\<close> on whatever the decoder returned: unpacking a value that is
  not a dictionary raises \<^verbatim>\<open>TypeError\<close>.
\<close>

definition GFGProfile_new :: "json \<Rightarrow> error + GFGProfile" where
  "GFGProfile_new parsed =
     (case parsed of
        JObj kwargs \<Rightarrow>
          (case GFGProfile_init kwargs of None \<Rightarrow> Inl ValidationError | Some p \<Rightarrow> Inr p)
      | _ \<Rightarrow> Inl TypeError)"

definition opt_str :: "string option \<Rightarrow> json" where
  "opt_str x = (case x of None \<Rightarrow> JNull | Some s \<Rightarrow> JStr s)"

text \<open>\<^verbatim>\<open>profile.dict()\<close>: every field, in the order of the class.\<close>

definition GFGProfile_dict :: "GFGProfile \<Rightarrow> (string \<times> json) list" where
  "GFGProfile_dict p =
     [(''username'', JStr (username p)),
      (''display_name'', opt_str (display_name p)),
      (''about'', opt_str (about p)),
      (''reputation'', opt_str (reputation p)),
      (''followers'', opt_int (followers p)),
      (''following'', opt_int (following p)),
      (''problems_solved'', opt_int (problems_solved p)),
      (''articles_count'', opt_int (articles_count p)),
      (''badges'', JArr (map JStr (badges p))),
      (''top_skills'', JArr (map JStr (top_skills p))),
      (''raw_extracted'', JObj (raw_extracted p))]"

section \<open>The fetcher: \<^verbatim>\<open>fetch_gfg_profile\<close>\<close>

text \<open>
  What lies outside the script is a parameter of the model: the answer of
  \<^verbatim>\<open>requests.get\<close> to a URL (a response with its status code and text, or an exception),
  the tree \<^verbatim>\<open>BeautifulSoup\<close> builds from a page, and the answer of \<^verbatim>\<open>chain.invoke\<close> (an
  exception, a dictionary with the key \<^verbatim>\<open>text\<close>, or any other object, given by its
  \<^verbatim>\<open>str\<close>).
\<close>

datatype http_outcome = Http_raises | Http_response nat string

datatype chain_outcome = Chain_raises | Chain_dict_text string | Chain_other string

record env =
  requests_get :: "string \<Rightarrow> http_outcome"
  BeautifulSoup :: "string \<Rightarrow> node"
  chain_invoke :: "string \<Rightarrow> string \<Rightarrow> chain_outcome"

text \<open>
  The state a run changes: the files (path to content) and, for the order of the
  effects, the list of what the run did to the outside.
\<close>

datatype event =
    Removed string
  | Requested string
  | Invoked string string
  | Written string string

record world =
  files :: "string \<Rightarrow> string option"
  trace :: "event list"

text \<open>
  The \<^verbatim>\<open>for\<close> loop over the URLs: an exception of \<^verbatim>\<open>requests.get\<close> is not caught and
  ends the loop; the first response with status 200 is returned; \<^verbatim>\<open>None\<close> when the list
  is used up.
\<close>

fun fetch_loop :: "(string \<Rightarrow> http_outcome) \<Rightarrow> string list \<Rightarrow> (error + string option) \<times> event list" where
  "fetch_loop get [] = (Inr None, [])"
| "fetch_loop get (url # urls) =
     (case get url of
        Http_raises \<Rightarrow> (Inl RequestException, [Requested url])
      | Http_response status_code body \<Rightarrow>
          if status_code = 200 then (Inr (Some body), [Requested url])
          else (case fetch_loop get urls of (r, evs) \<Rightarrow> (r, Requested url # evs)))"

definition urls :: "string \<Rightarrow> string list" where
  "urls user =
     [''https://auth.geeksforgeeks.org/user/'' @ user,
      ''https://www.geeksforgeeks.org/user/'' @ user @ ''/'']"

definition fetch_gfg_profile :: "env \<Rightarrow> string \<Rightarrow> (error + string option) \<times> event list" where
  "fetch_gfg_profile e user = fetch_loop (requests_get e) (urls user)"

section \<open>The pipeline: \<^verbatim>\<open>gfg_to_json\<close>\<close>

text \<open>
  \<^verbatim>\<open>re.search(r"\{.*\}", response, re.S)\<close>: at a position holding an opening brace, the
  greedy \<^verbatim>\<open>.*\<close> (which crosses line ends under \<^verbatim>\<open>re.S\<close>) runs to the last closing
  brace of the text; the search takes the leftmost position that matches.
\<close>

definition brace_match_here :: "string \<Rightarrow> string option" where
  "brace_match_here s =
     (case s of
        [] \<Rightarrow> None
      | c # cs \<Rightarrow>
          if c = CHR ''{'' \<and> CHR ''}'' \<in> set cs
          then Some (c # rev (dropWhile (\<lambda>x. x \<noteq> CHR ''}'') (rev cs)))
          else None)"

fun brace_search :: "string \<Rightarrow> string option" where
  "brace_search [] = None"
| "brace_search (c # cs) =
     (case brace_match_here (c # cs) of
        Some m \<Rightarrow> Some m
      | None \<Rightarrow> brace_search cs)"

text \<open>
  The \<^verbatim>\<open>try\<close> block: the whole response first; when that raises, the brace span, whose
  decoding is not guarded; when there is no span, the \<^verbatim>\<open>ValueError\<close> with the response.
\<close>

definition parse_response :: "string \<Rightarrow> error + json" where
  "parse_response response =
     (case json_loads response of
        Some parsed \<Rightarrow> Inr parsed
      | None \<Rightarrow>
         (case brace_search response of
            Some m \<Rightarrow> (case json_loads m of Some parsed \<Rightarrow> Inr parsed | None \<Rightarrow> Inl JSONDecodeError)
          | None \<Rightarrow> Inl (ValueError (''Invalid JSON from Falcon:'' @ [CHR 0x0A] @ response))))"

definition remove_old :: "world \<Rightarrow> string \<Rightarrow> world" where
  "remove_old w output_path =
     (if files w output_path \<noteq> None
      then w\<lparr>files := (files w)(output_path := None), trace := trace w @ [Removed output_path]\<rparr>
      else w)"

definition log :: "event list \<Rightarrow> world \<Rightarrow> world" where
  "log evs w = w\<lparr>trace := trace w @ evs\<rparr>"

definition write_file :: "string \<Rightarrow> string \<Rightarrow> world \<Rightarrow> world" where
  "write_file path content w =
     w\<lparr>files := (files w)(path \<mapsto> content), trace := trace w @ [Written path content]\<rparr>"

text \<open>
  The run is written in two parts. The first, \<open>obtain_response\<close>, is the body of
  \<^verbatim>\<open>gfg_to_json\<close> up to the model's response text: delete the old file, fetch, extract,
  serialise, invoke the chain, take the response text. Console output is not modelled.
\<close>

definition obtain_response :: "env \<Rightarrow> world \<Rightarrow> string \<Rightarrow> string \<Rightarrow> (error + string) \<times> world" where
  "obtain_response e w user output_path =
     (let w1 = remove_old w output_path
      in case fetch_gfg_profile e user of (fetched, evs) \<Rightarrow>
         (let w2 = log evs w1
          in case fetched of
               Inl err \<Rightarrow> (Inl err, w2)
             | Inr None \<Rightarrow> (Inl (ValueError ''Profile not found or private.''), w2)
             | Inr (Some html) \<Rightarrow>
                 if html = [] then (Inl (ValueError ''Profile not found or private.''), w2)
                 else
                  (case parse_profile_html (BeautifulSoup e html) of
                     Inl err \<Rightarrow> (Inl err, w2)
                   | Inr raw \<Rightarrow>
                      (let raw_str = dumps (JObj raw);
                           w3 = log [Invoked user raw_str] w2
                       in case chain_invoke e user raw_str of
                            Chain_raises \<Rightarrow> (Inl ChainError, w3)
                          | Chain_dict_text response \<Rightarrow> (Inr response, w3)
                          | Chain_other response \<Rightarrow> (Inr response, w3)))))"

text \<open>
  The second part, \<open>finish\<close>, is the rest of the body: decode the response, validate
  it, and only then open and write the file and return the dictionary.
\<close>

definition finish :: "string \<Rightarrow> string \<Rightarrow> world \<Rightarrow> (error + (string \<times> json) list) \<times> world" where
  "finish response output_path w =
     (case parse_response response of
        Inl err \<Rightarrow> (Inl err, w)
      | Inr parsed \<Rightarrow>
         (case GFGProfile_new parsed of
            Inl err \<Rightarrow> (Inl err, w)
          | Inr profile \<Rightarrow>
             (let result = GFGProfile_dict profile
              in (Inr result, write_file output_path (dump_indent 0 (JObj result)) w))))"

definition gfg_to_json ::
  "env \<Rightarrow> world \<Rightarrow> string \<Rightarrow> string \<Rightarrow> (error + (string \<times> json) list) \<times> world" where
  "gfg_to_json e w user output_path =
     (case obtain_response e w user output_path of
        (Inl err, w') \<Rightarrow> (Inl err, w')
      | (Inr response, w') \<Rightarrow> finish response output_path w')"

section \<open>Predicates and example runs used in the statements\<close>

definition non_200 :: "http_outcome \<Rightarrow> bool" where
  "non_200 x = (case x of Http_raises \<Rightarrow> False | Http_response status_code body \<Rightarrow> status_code \<noteq> 200)"






text \<open>A page whose visible text is one line, and worlds with and without an old file.\<close>

definition page :: "string \<Rightarrow> node" where
  "page line = Tag ''[document]'' [] [Tag ''div'' [] [NavigableString line]]"

definition world_empty :: world where
  "world_empty = \<lparr>files = (\<lambda>p. None), trace = []\<rparr>"

definition world_old :: world where
  \<open>world_old = \<lparr>files = (\<lambda>p. if p = ''output.json'' then Some ''{"username": "old"}'' else None),
                  trace = []\<rparr>\<close>

text \<open>An outside world that serves the page and answers with a given response text.\<close>

definition env_answering :: "string \<Rightarrow> env" where
  "env_answering response =
     \<lparr>requests_get = (\<lambda>url. Http_response 200 ''<div></div>''),
      BeautifulSoup = (\<lambda>html. Tag ''[document]'' [] [Tag ''div'' [] []]),
      chain_invoke = (\<lambda>user raw_str. Chain_dict_text response)\<rparr>"

text \<open>Both URLs answer 404; and the network is down.\<close>

definition env_404 :: env where
  "env_404 =
     \<lparr>requests_get = (\<lambda>url. Http_response 404 ''Not Found''),
      BeautifulSoup = (\<lambda>html. page html),
      chain_invoke = (\<lambda>user raw_str. Chain_raises)\<rparr>"

definition env_down :: env where
  "env_down =
     \<lparr>requests_get = (\<lambda>url. Http_raises),
      BeautifulSoup = (\<lambda>html. page html),
      chain_invoke = (\<lambda>user raw_str. Chain_raises)\<rparr>"

text \<open>The profile of a user of whom only the name and, possibly, the followers are known.\<close>

definition bob_profile :: "int option \<Rightarrow> GFGProfile" where
  "bob_profile n =
     \<lparr>username = ''bob'', display_name = None, about = None, reputation = None,
      followers = n, following = None, problems_solved = None, articles_count = None,
      badges = [], top_skills = [], raw_extracted = []\<rparr>"

section \<open>What a run does to the files\<close>

lemma fetch_loop_first:
  "fetch_loop get (u # us) = (r, evs) \<Longrightarrow> \<exists>evs'. evs = Requested u # evs'"
  by (auto split: http_outcome.splits if_splits prod.splits)

lemma fetch_gfg_profile_first:
  "fetch_gfg_profile e user = (r, evs) \<Longrightarrow> \<exists>evs'. evs = Requested (hd (urls user)) # evs'"
proof -
  assume a: "fetch_gfg_profile e user = (r, evs)"
  have "urls user = hd (urls user) # tl (urls user)" by (simp add: urls_def)
  then have "fetch_loop (requests_get e) (hd (urls user) # tl (urls user)) = (r, evs)"
    using a by (simp add: fetch_gfg_profile_def)
  then show ?thesis by (rule fetch_loop_first)
qed

lemma remove_old_files: "files (remove_old w path) = (files w)(path := None)"
  by (auto simp: remove_old_def)

lemma remove_old_trace:
  "trace (remove_old w path) = trace w @ (if files w path \<noteq> None then [Removed path] else [])"
  by (simp add: remove_old_def)

lemma obtain_response_world:
  assumes "obtain_response e w user path = (r, w')"
  shows "files w' = (files w)(path := None)"
    and "\<exists>evs. trace w' = trace w @ (if files w path \<noteq> None then [Removed path] else [])
             @ Requested (hd (urls user)) # evs"
proof -
  obtain fetched evs where f: "fetch_gfg_profile e user = (fetched, evs)"
    by (cases "fetch_gfg_profile e user")
  obtain evs' where evs: "evs = Requested (hd (urls user)) # evs'"
    using fetch_gfg_profile_first [OF f] by blast
  from assms f show "files w' = (files w)(path := None)"
    by (auto simp: obtain_response_def Let_def log_def remove_old_files
        split: sum.splits option.splits if_splits chain_outcome.splits)
  from assms f evs
  show "\<exists>evs. trace w' = trace w @ (if files w path \<noteq> None then [Removed path] else [])
             @ Requested (hd (urls user)) # evs"
    by (auto simp: obtain_response_def Let_def log_def remove_old_trace
        split: sum.splits option.splits if_splits chain_outcome.splits)
qed

lemma finish_Inl: "finish response path w = (Inl err, w') \<Longrightarrow> w' = w"
  by (auto simp: finish_def Let_def split: sum.splits)

lemma finish_Inr:
  "finish response path w = (Inr r, w') \<Longrightarrow> w' = write_file path (dump_indent 0 (JObj r)) w"
  by (auto simp: finish_def Let_def split: sum.splits)

lemma gfg_to_json_cases:
  assumes "gfg_to_json e w user path = (r, w')"
  obtains (early) err where "obtain_response e w user path = (Inl err, w')" "r = Inl err"
  | (late) response w1 where "obtain_response e w user path = (Inr response, w1)"
      "finish response path w1 = (r, w')"
  using assms unfolding gfg_to_json_def
  by (auto split: prod.splits sum.splits)

lemma gfg_to_json_fail_files:
  assumes "gfg_to_json e w user path = (Inl err, w')"
  shows "files w' = (files w)(path := None)"
  using assms
proof (cases rule: gfg_to_json_cases)
  case (early err)
  then show ?thesis using obtain_response_world(1) by blast
next
  case (late response w1)
  then show ?thesis using obtain_response_world(1) finish_Inl by blast
qed

lemma gfg_to_json_trace:
  assumes "gfg_to_json e w user path = (r, w')"
  shows "\<exists>evs. trace w' = trace w @ (if files w path \<noteq> None then [Removed path] else [])
             @ Requested (hd (urls user)) # evs"
  using assms
proof (cases rule: gfg_to_json_cases)
  case (early err)
  then show ?thesis using obtain_response_world(2) by blast
next
  case (late response w1)
  from obtain_response_world(2) [OF late(1)] obtain evs where
    t: "trace w1 = trace w @ (if files w path \<noteq> None then [Removed path] else [])
             @ Requested (hd (urls user)) # evs" by blast
  show ?thesis
  proof (cases r)
    case (Inl a)
    then show ?thesis using late(2) finish_Inl t by blast
  next
    case (Inr b)
    then have "w' = write_file path (dump_indent 0 (JObj b)) w1" using late(2) finish_Inr by blast
    then show ?thesis using t by (simp add: write_file_def)
  qed
qed

text \<open>
  Claim C10. When a file exists at the output path, the run removes it before the first
  request is sent, and a run that ends in an exception leaves no file at the output
  path: the old file is not kept on failure.
\<close>

theorem gfg_to_json_deletes_first:
  assumes "gfg_to_json e w user path = (r, w')" and "files w path = Some old"
  shows "(\<exists>evs. trace w' = trace w @ Removed path # Requested (hd (urls user)) # evs)
       \<and> (\<forall>err. r = Inl err \<longrightarrow> files w' path = None)"
proof
  show "\<exists>evs. trace w' = trace w @ Removed path # Requested (hd (urls user)) # evs"
    using gfg_to_json_trace [OF assms(1)] assms(2) by simp
  show "\<forall>err. r = Inl err \<longrightarrow> files w' path = None"
    using gfg_to_json_fail_files assms(1) by auto
qed


theorem gfg_to_json_deletes_first_witness:
  "files world_old ''output.json'' \<noteq> None
   \<and> (\<exists>evs. trace (snd (gfg_to_json env_404 world_old ''bob'' ''output.json''))
          = trace world_old @ Removed ''output.json'' # Requested (hd (urls ''bob'')) # evs)
   \<and> fst (gfg_to_json env_404 world_old ''bob'' ''output.json'')
        = Inl (ValueError ''Profile not found or private.'')
   \<and> files (snd (gfg_to_json env_404 world_old ''bob'' ''output.json'')) ''output.json'' = None"
proof -
  have run: "gfg_to_json env_404 world_old ''bob'' ''output.json''
      = (fst (gfg_to_json env_404 world_old ''bob'' ''output.json''),
         snd (gfg_to_json env_404 world_old ''bob'' ''output.json''))" by simp
  have old: \<open>files world_old ''output.json'' = Some ''{"username": "old"}''\<close>
    by (simp add: world_old_def)
  have r: "fst (gfg_to_json env_404 world_old ''bob'' ''output.json'')
        = Inl (ValueError ''Profile not found or private.'')"
    by (simp add: gfg_to_json_def obtain_response_def fetch_gfg_profile_def urls_def env_404_def)
  show ?thesis using gfg_to_json_deletes_first [OF run old] old r by simp
qed

lemma obtain_response_result_indep:
  "fst (obtain_response e w user path) = fst (obtain_response e w0 user path)"
  by (auto simp: obtain_response_def Let_def
      split: prod.splits sum.splits option.splits if_splits chain_outcome.splits)

lemma finish_result_indep: "fst (finish response path w) = fst (finish response path w0)"
  by (auto simp: finish_def Let_def split: sum.splits)

lemma gfg_to_json_result_indep:
  "fst (gfg_to_json e w user path) = fst (gfg_to_json e w0 user path)"
proof -
  have "fst (gfg_to_json e w user path)
      = (case fst (obtain_response e w user path) of
           Inl err \<Rightarrow> Inl err
         | Inr response \<Rightarrow> fst (finish response path world_empty))" for w
    using finish_result_indep [of _ path _ world_empty]
    by (auto simp: gfg_to_json_def split: prod.splits sum.splits)
  then show ?thesis using obtain_response_result_indep [of e w user path w0] by simp
qed

lemma gfg_to_json_ok_files:
  assumes "gfg_to_json e w user path = (Inr r, w')"
  shows "files w' = (files w)(path \<mapsto> dump_indent 0 (JObj r))"
  using assms
proof (cases rule: gfg_to_json_cases)
  case (early err)
  then show ?thesis by simp
next
  case (late response w1)
  have "w' = write_file path (dump_indent 0 (JObj r)) w1" using late(2) by (rule finish_Inr)
  then show ?thesis using obtain_response_world(1) [OF late(1)] by (simp add: write_file_def)
qed

lemma gfg_to_json_ok_trace:
  assumes "gfg_to_json e w user path = (Inr r, w')"
  shows "\<exists>evs. trace w' = trace w @ (if files w path \<noteq> None then [Removed path] else []) @ evs
          @ [Written path (dump_indent 0 (JObj r))]"
  using assms
proof (cases rule: gfg_to_json_cases)
  case (early err)
  then show ?thesis by simp
next
  case (late response w1)
  have w': "w' = write_file path (dump_indent 0 (JObj r)) w1" using late(2) by (rule finish_Inr)
  from obtain_response_world(2) [OF late(1)] obtain evs where
    "trace w1 = trace w @ (if files w path \<noteq> None then [Removed path] else [])
           @ Requested (hd (urls user)) # evs" by blast
  then have "trace w' = trace w @ (if files w path \<noteq> None then [Removed path] else [])
           @ (Requested (hd (urls user)) # evs) @ [Written path (dump_indent 0 (JObj r))]"
    using w' by (simp add: write_file_def)
  then show ?thesis by blast
qed

text \<open>
  Claim C8. After two successful runs on the same output path the file holds the
  serialisation of the second run's dictionary and nothing else: the files are what the
  second run alone would have left, and in the second run the old file is removed
  before the new content is written.
\<close>

theorem gfg_to_json_second_run_overwrites:
  assumes "gfg_to_json e1 w user1 path = (Inr r1, w1)"
      and "gfg_to_json e2 w1 user2 path = (Inr r2, w2)"
  shows "files w2 path = Some (dump_indent 0 (JObj r2))
       \<and> files w2 = files (snd (gfg_to_json e2 w user2 path))
       \<and> (\<exists>evs. trace w2 = trace w1 @ Removed path # evs @ [Written path (dump_indent 0 (JObj r2))])"
proof -
  have f1: "files w1 = (files w)(path \<mapsto> dump_indent 0 (JObj r1))"
    using assms(1) by (rule gfg_to_json_ok_files)
  have f2: "files w2 = (files w1)(path \<mapsto> dump_indent 0 (JObj r2))"
    using assms(2) by (rule gfg_to_json_ok_files)
  have "fst (gfg_to_json e2 w user2 path) = Inr r2"
    using gfg_to_json_result_indep [of e2 w user2 path w1] assms(2) by simp
  then have "gfg_to_json e2 w user2 path = (Inr r2, snd (gfg_to_json e2 w user2 path))"
    by (metis prod.collapse)
  then have f3: "files (snd (gfg_to_json e2 w user2 path)) = (files w)(path \<mapsto> dump_indent 0 (JObj r2))"
    by (rule gfg_to_json_ok_files)
  have t: "\<exists>evs. trace w2 = trace w1 @ Removed path # evs @ [Written path (dump_indent 0 (JObj r2))]"
    using gfg_to_json_ok_trace [OF assms(2)] f1 by simp
  show ?thesis using f1 f2 f3 t by simp
qed

section \<open>Fetch failures\<close>

lemma fetch_loop_two:
  "fetch_loop get [u1, u2] =
     (case get u1 of
        Http_raises \<Rightarrow> (Inl RequestException, [Requested u1])
      | Http_response s1 b1 \<Rightarrow>
          if s1 = 200 then (Inr (Some b1), [Requested u1])
          else (case get u2 of
                  Http_raises \<Rightarrow> (Inl RequestException, [Requested u1, Requested u2])
                | Http_response s2 b2 \<Rightarrow>
                    if s2 = 200 then (Inr (Some b2), [Requested u1, Requested u2])
                    else (Inr None, [Requested u1, Requested u2])))"
  by (simp split: http_outcome.splits)

lemma urls_two: "urls user = [urls user ! 0, urls user ! 1]"
  by (simp add: urls_def)

lemma fetch_gfg_profile_non_200:
  assumes "non_200 (requests_get e (urls user ! 0))" and "non_200 (requests_get e (urls user ! 1))"
  shows "fetch_gfg_profile e user = (Inr None, [Requested (urls user ! 0), Requested (urls user ! 1)])"
proof -
  have "fetch_gfg_profile e user = fetch_loop (requests_get e) [urls user ! 0, urls user ! 1]"
    unfolding fetch_gfg_profile_def using urls_two [of user] by simp
  then show ?thesis using assms
    by (simp only: fetch_loop_two) (auto simp: non_200_def split: http_outcome.splits)
qed

lemma fetch_gfg_profile_raises:
  assumes "requests_get e (urls user ! 0) = Http_raises"
  shows "fetch_gfg_profile e user = (Inl RequestException, [Requested (urls user ! 0)])"
proof -
  have "fetch_gfg_profile e user = fetch_loop (requests_get e) [urls user ! 0, urls user ! 1]"
    unfolding fetch_gfg_profile_def using urls_two [of user] by simp
  then show ?thesis using assms by (simp only: fetch_loop_two) simp
qed

text \<open>
  Claim C3, as the code has it. When both URLs answer with a status other than 200 the
  run ends in \<^verbatim>\<open>ValueError("Profile not found or private.")\<close> and no file is left at the
  output path. An exception of \<^verbatim>\<open>requests.get\<close> is not caught anywhere: it ends the run
  as the transport exception itself (again with no file at the output path).
\<close>

theorem gfg_to_json_both_non_200:
  assumes "gfg_to_json e w user path = (r, w')"
  shows "(non_200 (requests_get e (urls user ! 0)) \<and> non_200 (requests_get e (urls user ! 1))
            \<longrightarrow> r = Inl (ValueError ''Profile not found or private.'')
                \<and> files w' = (files w)(path := None))
       \<and> (requests_get e (urls user ! 0) = Http_raises
            \<longrightarrow> r = Inl RequestException \<and> files w' = (files w)(path := None))"
proof (intro conjI impI)
  assume a: "non_200 (requests_get e (urls user ! 0)) \<and> non_200 (requests_get e (urls user ! 1))"
  then have f: "fetch_gfg_profile e user
      = (Inr None, [Requested (urls user ! 0), Requested (urls user ! 1)])"
    using fetch_gfg_profile_non_200 by blast
  then have o: "fst (obtain_response e w user path) = Inl (ValueError ''Profile not found or private.'')"
    by (simp add: obtain_response_def Let_def)
  then show r: "r = Inl (ValueError ''Profile not found or private.'')"
    using assms by (auto simp: gfg_to_json_def split: prod.splits sum.splits)
  show "files w' = (files w)(path := None)"
    using r assms gfg_to_json_fail_files by blast
next
  assume a: "requests_get e (urls user ! 0) = Http_raises"
  then have "fetch_gfg_profile e user = (Inl RequestException, [Requested (urls user ! 0)])"
    by (rule fetch_gfg_profile_raises)
  then have "fst (obtain_response e w user path) = Inl RequestException"
    by (simp add: obtain_response_def Let_def)
  then show r: "r = Inl RequestException"
    using assms by (auto simp: gfg_to_json_def split: prod.splits sum.splits)
  show "files w' = (files w)(path := None)"
    using r assms gfg_to_json_fail_files by blast
qed

theorem gfg_to_json_both_non_200_witness:
  "non_200 (requests_get env_404 (urls ''bob'' ! 0))
   \<and> non_200 (requests_get env_404 (urls ''bob'' ! 1))
   \<and> fst (gfg_to_json env_404 world_old ''bob'' ''output.json'')
       = Inl (ValueError ''Profile not found or private.'')
   \<and> files (snd (gfg_to_json env_404 world_old ''bob'' ''output.json'')) ''output.json'' = None"
proof -
  have run: "gfg_to_json env_404 world_old ''bob'' ''output.json''
      = (fst (gfg_to_json env_404 world_old ''bob'' ''output.json''),
         snd (gfg_to_json env_404 world_old ''bob'' ''output.json''))" by simp
  have n: "non_200 (requests_get env_404 (urls ''bob'' ! 0))"
      "non_200 (requests_get env_404 (urls ''bob'' ! 1))"
    by (simp_all add: env_404_def non_200_def)
  show ?thesis using gfg_to_json_both_non_200 [OF run] n by simp
qed

text \<open>
  With the network down both requests would fail, but the run ends in the exception of
  the first request, not in the \<^verbatim>\<open>ValueError\<close>.
\<close>

theorem network_error_counterexample:
  "requests_get env_down (urls ''bob'' ! 0) = Http_raises
   \<and> requests_get env_down (urls ''bob'' ! 1) = Http_raises
   \<and> fst (gfg_to_json env_down world_empty ''bob'' ''output.json'') = Inl RequestException
   \<and> Inl RequestException \<noteq> (Inl (ValueError ''Profile not found or private.'') :: error + (string \<times> json) list)"
  by (simp add: env_down_def gfg_to_json_def obtain_response_def fetch_gfg_profile_def urls_def
      Let_def)

section \<open>Responses that do not decode\<close>

lemma gfg_to_json_late:
  "obtain_response e w user path = (Inr response, w1) \<Longrightarrow>
   gfg_to_json e w user path = finish response path w1"
  by (simp add: gfg_to_json_def)


lemma obtain_response_answering:
  "obtain_response (env_answering response) w ''bob'' ''output.json''
     = (Inr response,
        log [Invoked ''bob'' (dumps (JObj [(''followers'', JNull), (''following'', JNull),
               (''problems_solved'', JNull), (''articles_count'', JNull),
               (''raw_text_snippet'', JStr '''')]))]
          (log [Requested (hd (urls ''bob''))] (remove_old w ''output.json'')))"
proof -
  have p: "parse_profile_html (Tag ''[document]'' [] [Tag ''div'' [] []])
     = Inr [(''followers'', JNull), (''following'', JNull), (''problems_solved'', JNull),
            (''articles_count'', JNull), (''raw_text_snippet'', JStr '''')]"
    by code_simp
  have f: "fetch_gfg_profile (env_answering response) ''bob''
      = (Inr (Some ''<div></div>''), [Requested (hd (urls ''bob''))])"
    by (simp add: fetch_gfg_profile_def urls_def env_answering_def)
  have e: "BeautifulSoup (env_answering response) ''<div></div>'' = Tag ''[document]'' [] [Tag ''div'' [] []]"
    "\<And>raw. chain_invoke (env_answering response) ''bob'' raw = Chain_dict_text response"
    by (simp_all add: env_answering_def)
  show ?thesis
    unfolding obtain_response_def f by (simp add: Let_def e p)
qed



section \<open>Successful runs\<close>

lemmas validate_defs = validate_str_def validate_opt_str_def validate_opt_int_def
  validate_str_list_def validate_dict_def

lemma finish_ok:
  "parse_response response = Inr parsed \<Longrightarrow> GFGProfile_new parsed = Inr p \<Longrightarrow>
   finish response path w
     = (Inr (GFGProfile_dict p), write_file path (dump_indent 0 (JObj (GFGProfile_dict p))) w)"
  by (simp add: finish_def Let_def)

lemma bob_new:
  "GFGProfile_new (JObj ((''username'', JStr ''bob'') # rest)) = Inr (bob_profile n)
     \<longleftrightarrow> GFGProfile_init ((''username'', JStr ''bob'') # rest) = Some (bob_profile n)"
  by (simp add: GFGProfile_new_def split: option.splits)

lemma parse_bob: \<open>parse_response ''{"username": "bob"}'' = Inr (JObj [(''username'', JStr ''bob'')])\<close>
  by code_simp

lemma parse_bob7:
  \<open>parse_response ''{"username": "bob", "followers": 7}''
     = Inr (JObj [(''username'', JStr ''bob''), (''followers'', JInt 7)])\<close>
  by code_simp

lemma new_bob: "GFGProfile_new (JObj [(''username'', JStr ''bob'')]) = Inr (bob_profile None)"
  by (simp add: GFGProfile_new_def GFGProfile_init_def validate_defs bob_profile_def)

lemma new_bob_followers:
  "GFGProfile_new (JObj [(''username'', JStr ''bob''), (''followers'', JInt n)])
     = Inr (bob_profile (Some n))"
  by (simp add: GFGProfile_new_def GFGProfile_init_def validate_defs bob_profile_def)

text \<open>
  Two runs in a row on an output path that already holds a file: the first response
  gives seven followers, the second none; the file ends as the second dictionary.
\<close>

theorem gfg_to_json_second_run_overwrites_witness:
  \<open>files (snd (gfg_to_json (env_answering ''{"username": "bob"}'')
            (snd (gfg_to_json (env_answering ''{"username": "bob", "followers": 7}'')
                    world_old ''bob'' ''output.json''))
            ''bob'' ''output.json'')) ''output.json''
   = Some (dump_indent 0 (JObj (GFGProfile_dict (bob_profile None))))\<close>
proof -
  let ?e1 = \<open>env_answering ''{"username": "bob", "followers": 7}''\<close>
  let ?e2 = \<open>env_answering ''{"username": "bob"}''\<close>
  let ?run1 = "gfg_to_json ?e1 world_old ''bob'' ''output.json''"
  have run1: "?run1 = (Inr (GFGProfile_dict (bob_profile (Some 7))), snd ?run1)"
    unfolding gfg_to_json_late [OF obtain_response_answering]
      finish_ok [OF parse_bob7 new_bob_followers] by simp
  have run2: "gfg_to_json ?e2 (snd ?run1) ''bob'' ''output.json''
      = (Inr (GFGProfile_dict (bob_profile None)),
         snd (gfg_to_json ?e2 (snd ?run1) ''bob'' ''output.json''))"
    unfolding gfg_to_json_late [OF obtain_response_answering]
      finish_ok [OF parse_bob new_bob] by simp
  show ?thesis by (rule conjunct1 [OF gfg_to_json_second_run_overwrites [OF run1 run2]])
qed

section \<open>Validation against the schema\<close>

lemma map_of_filter_keys:
  "k \<in> S \<Longrightarrow> map_of (filter (\<lambda>kv. fst kv \<in> S) kwargs) k = map_of kwargs k"
  by (induction kwargs) auto

lemma GFGProfile_init_filter:
  "GFGProfile_init (filter (\<lambda>kv. fst kv \<in> set schema_keys) kwargs) = GFGProfile_init kwargs"
proof -
  have "map_of (filter (\<lambda>kv. fst kv \<in> set schema_keys) kwargs) k = map_of kwargs k"
    if "k \<in> set schema_keys" for k
    using that by (rule map_of_filter_keys)
  then show ?thesis
    unfolding GFGProfile_init_def by (simp add: schema_keys_def)
qed

text \<open>
  Claim C1, as the code has it. A top-level key that is not a field of the schema does
  not make validation fail: \<^verbatim>\<open>GFGProfile(**parsed)\<close> accepts or rejects a response
  exactly as it does once those keys are removed, and the dictionary of the profile
  holds the eleven schema keys and no other, so an extra key is dropped silently.
\<close>

theorem extra_keys_ignored:
  "GFGProfile_new (JObj kwargs)
     = GFGProfile_new (JObj (filter (\<lambda>kv. fst kv \<in> set schema_keys) kwargs))
   \<and> map fst (GFGProfile_dict p) = schema_keys"
proof
  show "GFGProfile_new (JObj kwargs)
     = GFGProfile_new (JObj (filter (\<lambda>kv. fst kv \<in> set schema_keys) kwargs))"
    by (simp add: GFGProfile_new_def GFGProfile_init_filter)
  show "map fst (GFGProfile_dict p) = schema_keys"
    by (simp add: GFGProfile_dict_def schema_keys_def)
qed

lemma parse_bob_extra:
  \<open>parse_response ''{"username": "bob", "contest_rating": 5}''
     = Inr (JObj [(''username'', JStr ''bob''), (''contest_rating'', JInt 5)])\<close>
  by code_simp

lemma new_bob_extra:
  "GFGProfile_new (JObj [(''username'', JStr ''bob''), (''contest_rating'', JInt 5)])
     = Inr (bob_profile None)"
  by (simp add: GFGProfile_new_def GFGProfile_init_def validate_defs bob_profile_def)

text \<open>
  A response with the key \<^verbatim>\<open>contest_rating\<close>, which the prompt itself asks the model
  for and which is no field of \<^verbatim>\<open>GFGProfile\<close>: the run succeeds and writes the file.
\<close>

theorem extra_key_accepted_counterexample:
  \<open>parse_response ''{"username": "bob", "contest_rating": 5}''
     = Inr (JObj [(''username'', JStr ''bob''), (''contest_rating'', JInt 5)])
   \<and> ''contest_rating'' \<notin> set schema_keys
   \<and> fst (gfg_to_json (env_answering ''{"username": "bob", "contest_rating": 5}'')
            world_empty ''bob'' ''output.json'')
       = Inr (GFGProfile_dict (bob_profile None))
   \<and> files (snd (gfg_to_json (env_answering ''{"username": "bob", "contest_rating": 5}'')
            world_empty ''bob'' ''output.json'')) ''output.json''
       = Some (dump_indent 0 (JObj (GFGProfile_dict (bob_profile None))))\<close>
proof -
  have k: "''contest_rating'' \<notin> set schema_keys" by (simp add: schema_keys_def)
  have run: \<open>gfg_to_json (env_answering ''{"username": "bob", "contest_rating": 5}'')
            world_empty ''bob'' ''output.json''
      = (Inr (GFGProfile_dict (bob_profile None)),
         write_file ''output.json'' (dump_indent 0 (JObj (GFGProfile_dict (bob_profile None))))
           (log [Invoked ''bob'' (dumps (JObj [(''followers'', JNull), (''following'', JNull),
               (''problems_solved'', JNull), (''articles_count'', JNull),
               (''raw_text_snippet'', JStr '''')]))]
             (log [Requested (hd (urls ''bob''))] (remove_old world_empty ''output.json''))))\<close>
    unfolding gfg_to_json_late [OF obtain_response_answering]
      finish_ok [OF parse_bob_extra new_bob_extra] by (rule refl)
  have f: \<open>files (snd (gfg_to_json (env_answering ''{"username": "bob", "contest_rating": 5}'')
            world_empty ''bob'' ''output.json'')) ''output.json''
       = Some (dump_indent 0 (JObj (GFGProfile_dict (bob_profile None))))\<close>
    unfolding run by (simp add: write_file_def)
  have r: \<open>fst (gfg_to_json (env_answering ''{"username": "bob", "contest_rating": 5}'')
            world_empty ''bob'' ''output.json'') = Inr (GFGProfile_dict (bob_profile None))\<close>
    unfolding run by (rule fst_conv)
  show ?thesis using parse_bob_extra k r f by (intro conjI)
qed







section \<open>The brace scan\<close>









section \<open>The extractor on pages where nothing is found\<close>

lemma grab_num_None: "re_search pat text = None \<Longrightarrow> grab_num pat text = Inr None"
  by (simp add: grab_num_def)

text \<open>
  When no selector finds a tag and no pattern matches, the extractor returns the four
  counters as \<^verbatim>\<open>None\<close> and the raw-text excerpt, and raises nothing.
\<close>

lemma parse_profile_html_nothing_found:
  assumes "select name_selectors [] soup = []" and "select about_selectors [] soup = []"
      and "re_search followers_pat (get_text_sep [CHR 0x0A] soup) = None"
      and "re_search following_pat (get_text_sep [CHR 0x0A] soup) = None"
      and "re_search problems_pat (get_text_sep [CHR 0x0A] soup) = None"
      and "re_search articles_pat (get_text_sep [CHR 0x0A] soup) = None"
      and "filter (\<lambda>b. b \<noteq> []) (map get_text_strip (select badge_selectors [] soup)) = []"
      and "select skill_selectors [] soup = []"
  shows "parse_profile_html soup
     = Inr [(''followers'', JNull), (''following'', JNull), (''problems_solved'', JNull),
            (''articles_count'', JNull),
            (''raw_text_snippet'', JStr (take 2000 (get_text_sep [CHR 0x0A] soup)))]"
  using assms
  by (simp add: parse_profile_html_def Let_def select_one_def grab_num_None opt_int_def)

text \<open>
  Claim C4. The claim lets a skill selector match as long as it yields no non-empty text.
  The badge list is built with the filter \<^verbatim>\<open>if b.get_text(strip=True)\<close>; the skill list
  is built without it. On a page whose only tag is an empty \<^verbatim>\<open><div class="tag">\<close> no
  name or about selector matches, the visible text is empty, no badge is found and the
  skill selector yields only the empty text; yet the result holds the key
  \<^verbatim>\<open>top_skills\<close> with the value \<^verbatim>\<open>[""]\<close>.
\<close>

theorem empty_skill_tag_kept:
  "select name_selectors [] (Tag ''[document]'' [] [Tag ''div'' [''tag''] []]) = []
   \<and> select about_selectors [] (Tag ''[document]'' [] [Tag ''div'' [''tag''] []]) = []
   \<and> get_text_sep [CHR 0x0A] (Tag ''[document]'' [] [Tag ''div'' [''tag''] []]) = []
   \<and> select badge_selectors [] (Tag ''[document]'' [] [Tag ''div'' [''tag''] []]) = []
   \<and> map get_text_strip (select skill_selectors [] (Tag ''[document]'' [] [Tag ''div'' [''tag''] []]))
       = [[]]
   \<and> parse_profile_html (Tag ''[document]'' [] [Tag ''div'' [''tag''] []])
       = Inr [(''followers'', JNull), (''following'', JNull), (''problems_solved'', JNull),
              (''articles_count'', JNull), (''top_skills'', JArr [JStr '''']),
              (''raw_text_snippet'', JStr '''')]"
  by code_simp

section \<open>The numeric counters\<close>













end
